theory Spec2Isabelle
  imports Main
begin

section \<open>Python values, exceptions and effects\<close>

text \<open>
  The module \<^verbatim>\<open>returns/maybe.py\<close> is dynamically typed: a container holds any Python
  object, the absence-sentinel \<^verbatim>\<open>None\<close> included, and a container is itself a Python
  object. Values are therefore one universe. \<open>PyObj\<close> stands for every other object
  (functions among them), named by its identity. The two final classes \<^verbatim>\<open>_Some\<close> and
  \<^verbatim>\<open>_Nothing\<close> are the constructors \<open>Some_cls\<close> and \<open>Nothing_cls\<close>; the inner
  value of a \<^verbatim>\<open>_Nothing\<close> is always \<^verbatim>\<open>None\<close>, whatever its constructor is given.
\<close>

datatype pyval =
    PyNone
  | PyInt int
  | PyStr string
  | PyTuple "pyval list"
  | PyObj nat
  | PyMaybe Maybe
and Maybe =
    Some_cls pyval
  | Nothing_cls

text \<open>
  \<^verbatim>\<open>UnwrapFailedError(container)\<close> keeps the container it is given. Every other exception
  (one raised by a callable of the user) is named by a string.
\<close>

datatype exn =
    UnwrapFailedError Maybe
  | OtherError string

text \<open>
  A call of user code may change the world and may raise: a computation takes the world
  \<open>'w\<close> and returns either the exception or the value, with the world after it.
\<close>

type_synonym ('w, 'a) py = "'w \<Rightarrow> (exn + 'a) \<times> 'w"

definition py_return :: "'a \<Rightarrow> ('w, 'a) py" where
  "py_return x = (\<lambda>w. (Inr x, w))"

definition py_raise :: "exn \<Rightarrow> ('w, 'a) py" where
  "py_raise e = (\<lambda>w. (Inl e, w))"

definition py_bind :: "('w, 'a) py \<Rightarrow> ('a \<Rightarrow> ('w, 'b) py) \<Rightarrow> ('w, 'b) py" where
  "py_bind m k = (\<lambda>w. case m w of (Inl e, w') \<Rightarrow> (Inl e, w') | (Inr x, w') \<Rightarrow> k x w')"

definition py_lift :: "exn + 'a \<Rightarrow> ('w, 'a) py" where
  "py_lift r = (\<lambda>w. (r, w))"

text \<open>A function without effects that always returns, as a callable.\<close>

definition pure_fn :: "('a \<Rightarrow> 'b) \<Rightarrow> 'a \<Rightarrow> ('w, 'b) py" where
  "pure_fn f = (\<lambda>a. py_return (f a))"

section \<open>The classes\<close>

datatype cls = Some_type | Nothing_type

fun type_of :: "Maybe \<Rightarrow> cls" where
  "type_of (Some_cls v) = Some_type"
| "type_of Nothing_cls = Nothing_type"

definition success_type :: cls where
  "success_type = Some_type"

definition failure_type :: cls where
  "failure_type = Nothing_type"

text \<open>Both classes are final, so an instance of a class is an object of exactly that class.\<close>

fun isinstance :: "pyval \<Rightarrow> cls \<Rightarrow> bool" where
  "isinstance (PyMaybe c) k = (type_of c = k)"
| "isinstance v k = False"

text \<open>The attribute \<^verbatim>\<open>_inner_value\<close>.\<close>

fun inner_value :: "Maybe \<Rightarrow> pyval" where
  "inner_value (Some_cls v) = v"
| "inner_value Nothing_cls = PyNone"

text \<open>\<^verbatim>\<open>_Nothing.__init__\<close> passes \<^verbatim>\<open>None\<close> to the base class, \<^verbatim>\<open>_Some.__init__\<close> its argument.\<close>

definition Nothing_init :: "pyval \<Rightarrow> Maybe" where
  "Nothing_init inner = Nothing_cls"

definition Some_init :: "pyval \<Rightarrow> Maybe" where
  "Some_init inner = Some_cls inner"

subsection \<open>Construction\<close>

definition from_value :: "pyval \<Rightarrow> Maybe" where
  "from_value inner = (if inner = PyNone then Nothing_init inner else Some_init inner)"

text \<open>The public function \<^verbatim>\<open>Some\<close> and the public value \<^verbatim>\<open>Nothing = _Nothing()\<close>.\<close>

definition Some_fn :: "pyval \<Rightarrow> Maybe" where
  "Some_fn inner = from_value inner"

definition Nothing :: Maybe where
  "Nothing = Nothing_init PyNone"

section \<open>The methods of \<^verbatim>\<open>_Nothing\<close>\<close>

text \<open>
  A callable argument is the computation its call runs. A method that calls no user code
  and cannot raise is a plain function; \<^verbatim>\<open>unwrap\<close> and \<^verbatim>\<open>failure\<close> call no user code
  and return the exception or the value.
\<close>

definition Nothing_map :: "Maybe \<Rightarrow> (pyval \<Rightarrow> ('w, pyval) py) \<Rightarrow> ('w, Maybe) py" where
  "Nothing_map self function = py_return self"

definition Nothing_apply :: "Maybe \<Rightarrow> pyval \<Rightarrow> ('w, pyval) py" where
  "Nothing_apply self container = py_return (PyMaybe self)"

definition Nothing_bind :: "Maybe \<Rightarrow> (pyval \<Rightarrow> ('w, Maybe) py) \<Rightarrow> ('w, Maybe) py" where
  "Nothing_bind self function = py_return self"

definition Nothing_value_or :: "Maybe \<Rightarrow> pyval \<Rightarrow> pyval" where
  "Nothing_value_or self default_value = default_value"

definition Nothing_or_else_call :: "Maybe \<Rightarrow> ('w, pyval) py \<Rightarrow> ('w, pyval) py" where
  "Nothing_or_else_call self function = function"

definition Nothing_unwrap :: "Maybe \<Rightarrow> exn + pyval" where
  "Nothing_unwrap self = Inl (UnwrapFailedError self)"

definition Nothing_failure :: "Maybe \<Rightarrow> exn + pyval" where
  "Nothing_failure self = Inr (inner_value self)"

section \<open>The methods of \<^verbatim>\<open>_Some\<close>\<close>

definition Some_map :: "Maybe \<Rightarrow> (pyval \<Rightarrow> ('w, pyval) py) \<Rightarrow> ('w, Maybe) py" where
  "Some_map self function =
     py_bind (function (inner_value self)) (\<lambda>r. py_return (from_value r))"

definition Some_bind :: "Maybe \<Rightarrow> (pyval \<Rightarrow> ('w, Maybe) py) \<Rightarrow> ('w, Maybe) py" where
  "Some_bind self function = function (inner_value self)"

definition Some_value_or :: "Maybe \<Rightarrow> pyval \<Rightarrow> pyval" where
  "Some_value_or self default_value = inner_value self"

definition Some_or_else_call :: "Maybe \<Rightarrow> ('w, pyval) py \<Rightarrow> ('w, pyval) py" where
  "Some_or_else_call self function = py_return (inner_value self)"

definition Some_unwrap :: "Maybe \<Rightarrow> exn + pyval" where
  "Some_unwrap self = Inr (inner_value self)"

definition Some_failure :: "Maybe \<Rightarrow> exn + pyval" where
  "Some_failure self = Inl (UnwrapFailedError self)"

section \<open>Method calls\<close>

text \<open>A method call \<^verbatim>\<open>x.map(f)\<close> runs the method of the class of \<open>x\<close>.\<close>

definition Maybe_map :: "Maybe \<Rightarrow> (pyval \<Rightarrow> ('w, pyval) py) \<Rightarrow> ('w, Maybe) py" where
  "Maybe_map self function =
     (case type_of self of
        Some_type \<Rightarrow> Some_map self function
      | Nothing_type \<Rightarrow> Nothing_map self function)"

definition Maybe_bind :: "Maybe \<Rightarrow> (pyval \<Rightarrow> ('w, Maybe) py) \<Rightarrow> ('w, Maybe) py" where
  "Maybe_bind self function =
     (case type_of self of
        Some_type \<Rightarrow> Some_bind self function
      | Nothing_type \<Rightarrow> Nothing_bind self function)"

definition Maybe_value_or :: "Maybe \<Rightarrow> pyval \<Rightarrow> pyval" where
  "Maybe_value_or self default_value =
     (case type_of self of
        Some_type \<Rightarrow> Some_value_or self default_value
      | Nothing_type \<Rightarrow> Nothing_value_or self default_value)"

definition Maybe_or_else_call :: "Maybe \<Rightarrow> ('w, pyval) py \<Rightarrow> ('w, pyval) py" where
  "Maybe_or_else_call self function =
     (case type_of self of
        Some_type \<Rightarrow> Some_or_else_call self function
      | Nothing_type \<Rightarrow> Nothing_or_else_call self function)"

definition Maybe_unwrap :: "Maybe \<Rightarrow> exn + pyval" where
  "Maybe_unwrap self =
     (case type_of self of
        Some_type \<Rightarrow> Some_unwrap self
      | Nothing_type \<Rightarrow> Nothing_unwrap self)"

definition Maybe_failure :: "Maybe \<Rightarrow> exn + pyval" where
  "Maybe_failure self =
     (case type_of self of
        Some_type \<Rightarrow> Some_failure self
      | Nothing_type \<Rightarrow> Nothing_failure self)"

text \<open>
  \<^verbatim>\<open>container.unwrap()\<close> on an arbitrary object: an object that is no container has no
  such method.
\<close>

fun unwrap_of :: "pyval \<Rightarrow> exn + pyval" where
  "unwrap_of (PyMaybe c) = Maybe_unwrap c"
| "unwrap_of v = Inl (OtherError ''AttributeError'')"

text \<open>
  \<^verbatim>\<open>_Some.apply\<close> calls the object it finds in the other container. What calling an
  object does is Python's, not this module's: it is the parameter \<open>call\<close>, which gives
  the computation of \<^verbatim>\<open>g(a)\<close> for the object \<open>g\<close> and the argument \<open>a\<close> (a
  \<^verbatim>\<open>TypeError\<close> where \<open>g\<close> is not callable).
\<close>

definition Some_apply ::
  "(pyval \<Rightarrow> pyval \<Rightarrow> ('w, pyval) py) \<Rightarrow> Maybe \<Rightarrow> pyval \<Rightarrow> ('w, pyval) py" where
  "Some_apply call self container =
     (if isinstance container success_type
      then py_bind (py_lift (unwrap_of container)) (\<lambda>function.
             py_bind (Maybe_map self (call function)) (\<lambda>r. py_return (PyMaybe r)))
      else py_return container)"

definition Maybe_apply ::
  "(pyval \<Rightarrow> pyval \<Rightarrow> ('w, pyval) py) \<Rightarrow> Maybe \<Rightarrow> pyval \<Rightarrow> ('w, pyval) py" where
  "Maybe_apply call self container =
     (case type_of self of
        Some_type \<Rightarrow> Some_apply call self container
      | Nothing_type \<Rightarrow> Nothing_apply self container)"

section \<open>The decorator\<close>

text \<open>
  \<^verbatim>\<open>maybe(function)\<close> is the function \<^verbatim>\<open>decorator(*args, **kwargs)\<close>; \<^verbatim>\<open>wraps\<close> copies
  the name and the documentation only.
\<close>

definition maybe ::
  "(pyval list \<Rightarrow> (string \<times> pyval) list \<Rightarrow> ('w, pyval) py)
    \<Rightarrow> pyval list \<Rightarrow> (string \<times> pyval) list \<Rightarrow> ('w, Maybe) py" where
  "maybe function =
     (\<lambda>args kwargs. py_bind (function args kwargs) (\<lambda>r. py_return (from_value r)))"

section \<open>Construction from an iterable\<close>

text \<open>
  Modelled from the spec: \<^verbatim>\<open>iterable_kind\<close> (module \<^verbatim>\<open>returns._generated.iterable\<close>) is
  not among the sources. The spec gives its contract: from a finite sequence of containers
  it produces one container wrapping the sequence of the payloads, in the order of the
  input, and the absence variant as soon as an input is absent; the empty input gives the
  present variant of the empty sequence. The sequence is a tuple, as in the docstring of
  \<^verbatim>\<open>from_iterable\<close>.
\<close>

fun collect_payloads :: "pyval list \<Rightarrow> Maybe list \<Rightarrow> Maybe" where
  "collect_payloads acc [] = Some_cls (PyTuple acc)"
| "collect_payloads acc (Nothing_cls # rest) = Nothing_cls"
| "collect_payloads acc (Some_cls v # rest) = collect_payloads (acc @ [v]) rest"

definition iterable_kind :: "Maybe list \<Rightarrow> Maybe" where
  "iterable_kind inner = collect_payloads [] inner"

text \<open>\<^verbatim>\<open>dekind\<close> only changes the static type.\<close>

definition dekind :: "Maybe \<Rightarrow> Maybe" where
  "dekind container = container"

definition from_iterable :: "Maybe list \<Rightarrow> Maybe" where
  "from_iterable inner = dekind (iterable_kind inner)"

section \<open>Simplification rules of the model\<close>

lemma py_bind_return [simp]: "py_bind (py_return x) k = k x"
  by (simp add: py_bind_def py_return_def)

lemma py_bind_run_Inr: "m w = (Inr x, w') \<Longrightarrow> py_bind m k w = k x w'"
  by (simp add: py_bind_def)

lemma py_bind_run_Inl: "m w = (Inl e, w') \<Longrightarrow> py_bind m k w = (Inl e, w')"
  by (simp add: py_bind_def)

lemma py_bind_raises:
  assumes "fst (py_bind m (\<lambda>r. py_return (h r)) w) = Inl e"
  shows "fst (m w) = Inl e"
proof (cases "m w")
  case (Pair r w')
  with assms show ?thesis
    by (cases r) (simp_all add: py_bind_def py_return_def)
qed

lemma from_value_simps [simp]:
  "from_value PyNone = Nothing_cls"
  "v \<noteq> PyNone \<Longrightarrow> from_value v = Some_cls v"
  by (simp_all add: from_value_def Nothing_init_def Some_init_def)

lemma from_value_not_Some_None: "from_value v \<noteq> Some_cls PyNone"
  by (cases "v = PyNone") simp_all

lemma Nothing_eq [simp]: "Nothing = Nothing_cls"
  by (simp add: Nothing_def Nothing_init_def)

lemma Maybe_map_simps [simp]:
  "Maybe_map Nothing_cls f = py_return Nothing_cls"
  "Maybe_map (Some_cls v) f = py_bind (f v) (\<lambda>r. py_return (from_value r))"
  by (simp_all add: Maybe_map_def Nothing_map_def Some_map_def)

lemma Maybe_bind_simps [simp]:
  "Maybe_bind Nothing_cls g = py_return Nothing_cls"
  "Maybe_bind (Some_cls v) g = g v"
  by (simp_all add: Maybe_bind_def Nothing_bind_def Some_bind_def)

lemma Maybe_or_else_call_simps [simp]:
  "Maybe_or_else_call Nothing_cls t = t"
  "Maybe_or_else_call (Some_cls v) t = py_return v"
  by (simp_all add: Maybe_or_else_call_def Nothing_or_else_call_def Some_or_else_call_def)

lemma Maybe_unwrap_simps [simp]:
  "Maybe_unwrap Nothing_cls = Inl (UnwrapFailedError Nothing_cls)"
  "Maybe_unwrap (Some_cls v) = Inr v"
  by (simp_all add: Maybe_unwrap_def Nothing_unwrap_def Some_unwrap_def)

lemma Maybe_failure_simps [simp]:
  "Maybe_failure Nothing_cls = Inr PyNone"
  "Maybe_failure (Some_cls v) = Inl (UnwrapFailedError (Some_cls v))"
  by (simp_all add: Maybe_failure_def Nothing_failure_def Some_failure_def)

lemma Maybe_apply_Nothing [simp]:
  "Maybe_apply call Nothing_cls c = py_return (PyMaybe Nothing_cls)"
  by (simp add: Maybe_apply_def Nothing_apply_def)

lemma Maybe_apply_Some_Some [simp]:
  "Maybe_apply call (Some_cls v) (PyMaybe (Some_cls g)) =
     py_bind (py_bind (call g v) (\<lambda>r. py_return (from_value r))) (\<lambda>r. py_return (PyMaybe r))"
  by (simp add: Maybe_apply_def Some_apply_def success_type_def py_lift_def py_bind_def)

lemma Maybe_apply_Some_other [simp]:
  "\<forall>g. c \<noteq> PyMaybe (Some_cls g) \<Longrightarrow> Maybe_apply call (Some_cls v) c = py_return c"
proof (cases c)
  case (PyMaybe m)
  assume "\<forall>g. c \<noteq> PyMaybe (Some_cls g)"
  with PyMaybe show ?thesis
    by (cases m) (simp_all add: Maybe_apply_def Some_apply_def success_type_def)
qed (simp_all add: Maybe_apply_def Some_apply_def success_type_def)

lemma collect_payloads_all_Some:
  "\<forall>c \<in> set cs. c \<noteq> Nothing_cls \<Longrightarrow>
   collect_payloads acc cs = Some_cls (PyTuple (acc @ map inner_value cs))"
proof (induction cs arbitrary: acc)
  case Nil
  show ?case by simp
next
  case (Cons c cs)
  from Cons.prems obtain v where c: "c = Some_cls v"
    by (cases c) auto
  from Cons.prems have "\<forall>c \<in> set cs. c \<noteq> Nothing_cls"
    by simp
  then have "collect_payloads (acc @ [v]) cs = Some_cls (PyTuple ((acc @ [v]) @ map inner_value cs))"
    by (rule Cons.IH)
  with c show ?case by simp
qed

lemma collect_payloads_any_Nothing:
  "Nothing_cls \<in> set cs \<Longrightarrow> collect_payloads acc cs = Nothing_cls"
proof (induction cs arbitrary: acc)
  case Nil
  then show ?case by simp
next
  case (Cons c cs)
  show ?case
  proof (cases c)
    case Nothing_cls
    then show ?thesis by simp
  next
    case (Some_cls v)
    with Cons.prems have "Nothing_cls \<in> set cs" by simp
    then have "collect_payloads (acc @ [v]) cs = Nothing_cls"
      by (rule Cons.IH)
    with Some_cls show ?thesis by simp
  qed
qed

section \<open>Construction normalises\<close>

text \<open>
  C1. For every value \<open>v\<close> other than \<^verbatim>\<open>None\<close>, \<^verbatim>\<open>Maybe.from_value(v)\<close> is the \<^verbatim>\<open>_Some\<close>
  holding \<open>v\<close>, and \<^verbatim>\<open>Maybe.from_value(None)\<close> is \<^verbatim>\<open>Nothing\<close>. The public \<^verbatim>\<open>Some\<close>
  is the same function, so \<^verbatim>\<open>Some(None) == Nothing\<close>, and neither of them ever returns a
  \<^verbatim>\<open>_Some\<close> that wraps \<^verbatim>\<open>None\<close>.
\<close>

theorem from_value_normalises:
  "(v \<noteq> PyNone \<longrightarrow> from_value v = Some_cls v)
   \<and> from_value PyNone = Nothing
   \<and> Some_fn v = from_value v
   \<and> Some_fn PyNone = Nothing
   \<and> from_value v \<noteq> Some_cls PyNone
   \<and> Some_fn v \<noteq> Some_cls PyNone"
  by (simp add: from_value_def Some_fn_def Nothing_def Nothing_init_def Some_init_def)

theorem from_value_normalises_witness:
  "PyInt 1 \<noteq> PyNone \<and> from_value (PyInt 1) = Some_cls (PyInt 1)
   \<and> Some_fn (PyInt 1) = Some_cls (PyInt 1) \<and> Some_fn PyNone = Nothing_cls"
  using from_value_normalises [of "PyInt 1"]
  by (simp add: Nothing_def Nothing_init_def)

section \<open>Mapping\<close>

text \<open>
  C2. For every value \<open>v\<close> other than \<^verbatim>\<open>None\<close> and every function \<open>f\<close>, \<^verbatim>\<open>Some(v).map(f)\<close>
  is \<^verbatim>\<open>Maybe.from_value(f(v))\<close>: \<open>f\<close> is called once on \<open>v\<close> and its result goes through
  \<^verbatim>\<open>from_value\<close>, so a result \<^verbatim>\<open>None\<close> gives \<^verbatim>\<open>Nothing\<close>. \<^verbatim>\<open>Nothing.map(f)\<close> returns
  \<^verbatim>\<open>Nothing\<close> and does not call \<open>f\<close>: the world stays as it was, whatever \<open>f\<close> does.
\<close>

theorem Maybe_map_semantics:
  "(v \<noteq> PyNone \<longrightarrow>
      Maybe_map (Some_fn v) f = py_bind (f v) (\<lambda>r. py_return (from_value r)))
   \<and> (v \<noteq> PyNone \<and> f v w = (Inr PyNone, w') \<longrightarrow>
      Maybe_map (Some_fn v) f w = (Inr Nothing, w'))
   \<and> Maybe_map Nothing f w = (Inr Nothing, w)"
  by (simp add: Some_fn_def py_bind_run_Inr) (simp add: py_return_def)

theorem Maybe_map_semantics_witness:
  "PyInt 1 \<noteq> PyNone
   \<and> (\<lambda>a n. (Inr PyNone, Suc n)) (PyInt 1) (0::nat) = (Inr PyNone, Suc 0)
   \<and> Maybe_map (Some_fn (PyInt 1)) (\<lambda>a n. (Inr PyNone, Suc n)) (0::nat) = (Inr Nothing, Suc 0)
   \<and> Maybe_map Nothing (\<lambda>a n. (Inr PyNone, Suc n)) (0::nat) = (Inr Nothing, 0)"
  using Maybe_map_semantics [of "PyInt 1" "\<lambda>a n. (Inr PyNone, Suc n)" "0::nat" "Suc 0"]
  by (simp add: py_return_def py_bind_def)

section \<open>Unwrapping\<close>

text \<open>
  C3. \<^verbatim>\<open>unwrap()\<close> on \<^verbatim>\<open>Nothing\<close> raises \<^verbatim>\<open>UnwrapFailedError\<close> carrying that container and
  on a \<^verbatim>\<open>_Some\<close> holding \<open>v\<close> returns \<open>v\<close>; \<^verbatim>\<open>failure()\<close> on a \<^verbatim>\<open>_Some\<close> raises
  \<^verbatim>\<open>UnwrapFailedError\<close> carrying that container and on \<^verbatim>\<open>Nothing\<close> returns \<^verbatim>\<open>None\<close>.
  The container raises nothing else: \<^verbatim>\<open>unwrap\<close> and \<^verbatim>\<open>failure\<close> raise only this error,
  and only on the variant named, and an exception that leaves \<^verbatim>\<open>map\<close>, \<^verbatim>\<open>bind\<close>,
  \<^verbatim>\<open>or_else_call\<close>, \<^verbatim>\<open>apply\<close> or a decorated function is one that the callable it was
  given raised there.
\<close>

theorem unwrap_failure_contract:
  "Maybe_unwrap Nothing = Inl (UnwrapFailedError Nothing)
   \<and> Maybe_unwrap (Some_cls v) = Inr v
   \<and> Maybe_failure (Some_cls v) = Inl (UnwrapFailedError (Some_cls v))
   \<and> Maybe_failure Nothing = Inr PyNone
   \<and> (Maybe_unwrap x = Inl e \<longrightarrow> x = Nothing \<and> e = UnwrapFailedError x)
   \<and> (Maybe_failure x = Inl e \<longrightarrow> x = Some_cls (inner_value x) \<and> e = UnwrapFailedError x)
   \<and> (fst (Maybe_map x f w) = Inl e \<longrightarrow> fst (f (inner_value x) w) = Inl e)
   \<and> (fst (Maybe_bind x g w) = Inl e \<longrightarrow> fst (g (inner_value x) w) = Inl e)
   \<and> (fst (Maybe_or_else_call x t w) = Inl e \<longrightarrow> fst (t w) = Inl e)
   \<and> (fst (Maybe_apply call x c w) = Inl e \<longrightarrow>
        (\<exists>h. c = PyMaybe (Some_cls h) \<and> fst (call h (inner_value x) w) = Inl e))
   \<and> (fst (maybe fn args kwargs w) = Inl e \<longrightarrow> fst (fn args kwargs w) = Inl e)"
proof -
  have unwrap: "Maybe_unwrap x = Inl e \<longrightarrow> x = Nothing \<and> e = UnwrapFailedError x"
    by (cases x) auto
  have failure: "Maybe_failure x = Inl e \<longrightarrow> x = Some_cls (inner_value x) \<and> e = UnwrapFailedError x"
    by (cases x) auto
  have map: "fst (Maybe_map x f w) = Inl e \<longrightarrow> fst (f (inner_value x) w) = Inl e"
  proof (cases x)
    case (Some_cls v)
    then show ?thesis by (auto dest: py_bind_raises)
  next
    case Nothing_cls
    then show ?thesis by (simp add: py_return_def)
  qed
  have bind: "fst (Maybe_bind x g w) = Inl e \<longrightarrow> fst (g (inner_value x) w) = Inl e"
    by (cases x) (simp_all add: py_return_def)
  have or_else: "fst (Maybe_or_else_call x t w) = Inl e \<longrightarrow> fst (t w) = Inl e"
    by (cases x) (simp_all add: py_return_def)
  have applied: "fst (Maybe_apply call x c w) = Inl e \<longrightarrow>
        (\<exists>h. c = PyMaybe (Some_cls h) \<and> fst (call h (inner_value x) w) = Inl e)"
  proof (cases x)
    case Nothing_cls
    then show ?thesis by (simp add: py_return_def)
  next
    case (Some_cls v)
    show ?thesis
    proof (cases "\<exists>h. c = PyMaybe (Some_cls h)")
      case True
      then obtain h where "c = PyMaybe (Some_cls h)" ..
      with Some_cls show ?thesis
        by (auto dest!: py_bind_raises)
    next
      case False
      with Some_cls show ?thesis
        by (simp add: py_return_def)
    qed
  qed
  have decorated: "fst (maybe fn args kwargs w) = Inl e \<longrightarrow> fst (fn args kwargs w) = Inl e"
    by (auto simp: maybe_def dest: py_bind_raises)
  from unwrap failure map bind or_else applied decorated show ?thesis
    by simp
qed

theorem unwrap_failure_contract_witness:
  "Maybe_unwrap Nothing_cls = Inl (UnwrapFailedError Nothing_cls)
   \<and> Maybe_failure (Some_cls (PyInt 1)) = Inl (UnwrapFailedError (Some_cls (PyInt 1)))
   \<and> fst (Maybe_map (Some_cls (PyInt 1)) (\<lambda>a. py_raise (OtherError ''ValueError'')) (0::nat))
       = Inl (OtherError ''ValueError'')
   \<and> fst (Maybe_bind (Some_cls (PyInt 1)) (\<lambda>a. py_raise (OtherError ''ValueError'')) (0::nat))
       = Inl (OtherError ''ValueError'')
   \<and> fst (Maybe_or_else_call Nothing_cls (py_raise (OtherError ''ValueError'')) (0::nat))
       = Inl (OtherError ''ValueError'')
   \<and> fst (Maybe_apply (\<lambda>h a. py_raise (OtherError ''ValueError''))
            (Some_cls (PyInt 1)) (PyMaybe (Some_cls (PyObj 0))) (0::nat))
       = Inl (OtherError ''ValueError'')
   \<and> fst (maybe (\<lambda>args kwargs. py_raise (OtherError ''ValueError'')) [PyInt 0] [] (0::nat))
       = Inl (OtherError ''ValueError'')
   \<and> fst ((py_raise (OtherError ''ValueError'') :: (nat, pyval) py) 0)
       = Inl (OtherError ''ValueError'')"
  using
    unwrap_failure_contract [where x = Nothing_cls and e = "UnwrapFailedError Nothing_cls"]
    unwrap_failure_contract [where v = "PyInt 1" and x = "Some_cls (PyInt 1)"
      and e = "UnwrapFailedError (Some_cls (PyInt 1))"]
    unwrap_failure_contract [where x = "Some_cls (PyInt 1)" and e = "OtherError ''ValueError''"
      and f = "\<lambda>a. py_raise (OtherError ''ValueError'')"
      and g = "\<lambda>a. py_raise (OtherError ''ValueError'')"
      and call = "\<lambda>h a. py_raise (OtherError ''ValueError'')"
      and c = "PyMaybe (Some_cls (PyObj 0))"
      and fn = "\<lambda>args kwargs. py_raise (OtherError ''ValueError'')"
      and args = "[PyInt 0]" and kwargs = "[]" and w = "0::nat"]
    unwrap_failure_contract [where x = Nothing_cls and e = "OtherError ''ValueError''"
      and t = "py_raise (OtherError ''ValueError'')" and w = "0::nat"]
  by (simp add: py_raise_def py_bind_def maybe_def)

section \<open>Construction from an iterable\<close>

text \<open>
  C4. For every finite sequence of containers: if every element is a \<^verbatim>\<open>_Some\<close>, the
  result of \<^verbatim>\<open>from_iterable\<close> is the \<^verbatim>\<open>_Some\<close> holding the payloads in the order of the
  input; if some element is \<^verbatim>\<open>Nothing\<close>, wherever it stands, the result is \<^verbatim>\<open>Nothing\<close>;
  the empty sequence gives the \<^verbatim>\<open>_Some\<close> of the empty sequence. The examples of the
  specification are instances.
\<close>

theorem from_iterable_batch:
  "((\<forall>c \<in> set cs. type_of c = Some_type) \<longrightarrow>
      from_iterable cs = Some_cls (PyTuple (map inner_value cs)))
   \<and> (Nothing \<in> set cs \<longrightarrow> from_iterable cs = Nothing)
   \<and> from_iterable [] = Some_cls (PyTuple [])
   \<and> from_iterable [Some_cls (PyInt 1), Some_cls (PyInt 2)] = Some_cls (PyTuple [PyInt 1, PyInt 2])
   \<and> from_iterable [Some_cls (PyInt 1), Nothing] = Nothing
   \<and> from_iterable [Nothing, Some_cls (PyInt 1)] = Nothing"
proof -
  have present: "from_iterable cs = Some_cls (PyTuple (map inner_value cs))"
    if "\<forall>c \<in> set cs. type_of c = Some_type"
  proof -
    from that have "\<forall>c \<in> set cs. c \<noteq> Nothing_cls"
      by auto
    then have "collect_payloads [] cs = Some_cls (PyTuple ([] @ map inner_value cs))"
      by (rule collect_payloads_all_Some)
    then show ?thesis
      by (simp add: from_iterable_def dekind_def iterable_kind_def)
  qed
  have absent: "from_iterable cs = Nothing" if "Nothing \<in> set cs"
    using that by (simp add: from_iterable_def dekind_def iterable_kind_def collect_payloads_any_Nothing)
  have examples: "from_iterable [] = Some_cls (PyTuple [])"
    "from_iterable [Some_cls (PyInt 1), Some_cls (PyInt 2)] = Some_cls (PyTuple [PyInt 1, PyInt 2])"
    "from_iterable [Some_cls (PyInt 1), Nothing] = Nothing"
    "from_iterable [Nothing, Some_cls (PyInt 1)] = Nothing"
    by (simp_all add: from_iterable_def dekind_def iterable_kind_def)
  from present absent examples show ?thesis
    by blast
qed

theorem from_iterable_batch_witness:
  "type_of (Some_cls (PyStr ''a'')) = Some_type
   \<and> type_of (Some_cls (PyInt 7)) = Some_type
   \<and> type_of (Some_cls (PyStr ''b'')) = Some_type
   \<and> from_iterable [Some_cls (PyStr ''a''), Some_cls (PyInt 7), Some_cls (PyStr ''b'')]
       = Some_cls (PyTuple [PyStr ''a'', PyInt 7, PyStr ''b''])
   \<and> Nothing_cls \<in> set [Some_cls (PyInt 1), Nothing_cls, Some_cls (PyInt 3)]
   \<and> from_iterable [Some_cls (PyInt 1), Nothing_cls, Some_cls (PyInt 3)] = Nothing_cls"
  using
    from_iterable_batch [of "[Some_cls (PyStr ''a''), Some_cls (PyInt 7), Some_cls (PyStr ''b'')]"]
    from_iterable_batch [of "[Some_cls (PyInt 1), Nothing_cls, Some_cls (PyInt 3)]"]
  by simp

section \<open>The functor laws\<close>

text \<open>
  C5. For every container \<open>x\<close> that is \<^verbatim>\<open>Nothing\<close> or was made by the public API
  (\<^verbatim>\<open>Some(v)\<close>, \<^verbatim>\<open>Maybe.from_value(v)\<close>, and more generally every container other than a
  \<^verbatim>\<open>_Some\<close> wrapping \<^verbatim>\<open>None\<close>, which the public constructors never return),
  \<^verbatim>\<open>x.map(identity) == x\<close>.
\<close>

theorem functor_identity:
  "Maybe_map Nothing (pure_fn (\<lambda>a. a)) = py_return Nothing
   \<and> Maybe_map (Some_fn v) (pure_fn (\<lambda>a. a)) = py_return (Some_fn v)
   \<and> Maybe_map (from_value v) (pure_fn (\<lambda>a. a)) = py_return (from_value v)
   \<and> (x \<noteq> Some_cls PyNone \<longrightarrow> Maybe_map x (pure_fn (\<lambda>a. a)) = py_return x)"
proof -
  have valid: "Maybe_map y (pure_fn (\<lambda>a. a)) = py_return y" if "y \<noteq> Some_cls PyNone" for y
    using that by (cases y) (simp_all add: pure_fn_def)
  have made: "Maybe_map (from_value v) (pure_fn (\<lambda>a. a)) = py_return (from_value v)"
    by (rule valid) (rule from_value_not_Some_None)
  then have public: "Maybe_map (Some_fn v) (pure_fn (\<lambda>a. a)) = py_return (Some_fn v)"
    by (simp only: Some_fn_def)
  have empty: "Maybe_map Nothing (pure_fn (\<lambda>a. a)) = py_return Nothing"
    by simp
  from empty public made valid [of x] show ?thesis
    by blast
qed

theorem functor_identity_witness:
  "Some_cls (PyInt 1) \<noteq> Some_cls PyNone
   \<and> Maybe_map (Some_cls (PyInt 1)) (pure_fn (\<lambda>a. a)) = py_return (Some_cls (PyInt 1))
   \<and> Maybe_map (Some_fn PyNone) (pure_fn (\<lambda>a. a)) = py_return Nothing_cls"
  using functor_identity [of PyNone "Some_cls (PyInt 1)"]
  by (simp add: Some_fn_def)

text \<open>
  The restriction to the public API matters: a \<^verbatim>\<open>_Some\<close> built around \<^verbatim>\<open>None\<close> by the
  private constructor is mapped to \<^verbatim>\<open>Nothing\<close>.
\<close>

lemma private_Some_None_map_identity:
  "Maybe_map (Some_init PyNone) (pure_fn (\<lambda>a. a)) = py_return Nothing_cls"
  by (simp add: Some_init_def pure_fn_def)

text \<open>
  C6. For every container \<open>x\<close> and all pure functions \<open>f\<close> and \<open>g\<close> that never return
  \<^verbatim>\<open>None\<close>, \<^verbatim>\<open>x.map(f).map(g) == x.map(compose(g, f))\<close>.
\<close>

theorem functor_composition:
  assumes "\<forall>a. f a \<noteq> PyNone" and "\<forall>a. g a \<noteq> PyNone"
  shows "py_bind (Maybe_map x (pure_fn f)) (\<lambda>y. Maybe_map y (pure_fn g))
         = Maybe_map x (pure_fn (\<lambda>a. g (f a)))"
proof (cases x)
  case Nothing_cls
  then show ?thesis by simp
next
  case (Some_cls v)
  from assms have "f v \<noteq> PyNone" and "g (f v) \<noteq> PyNone"
    by simp_all
  with Some_cls show ?thesis
    by (simp add: pure_fn_def)
qed

theorem functor_composition_witness:
  "(\<forall>a. PyTuple [a] \<noteq> PyNone) \<and> (\<forall>a. PyTuple [a, a] \<noteq> PyNone)
   \<and> py_bind (Maybe_map (Some_cls (PyInt 1)) (pure_fn (\<lambda>a. PyTuple [a])))
        (\<lambda>y. Maybe_map y (pure_fn (\<lambda>a. PyTuple [a, a])))
      = Maybe_map (Some_cls (PyInt 1)) (pure_fn (\<lambda>a. PyTuple [PyTuple [a], PyTuple [a]]))"
  using functor_composition [of "\<lambda>a. PyTuple [a]" "\<lambda>a. PyTuple [a, a]" "Some_cls (PyInt 1)"]
  by simp

text \<open>
  Without the precondition on \<open>f\<close> the two sides differ: with \<open>f\<close> returning \<^verbatim>\<open>None\<close>
  the first \<^verbatim>\<open>map\<close> gives \<^verbatim>\<open>Nothing\<close>, while the composed function is applied to \<^verbatim>\<open>None\<close>.
\<close>

lemma composition_needs_precondition:
  "py_bind (Maybe_map (Some_cls (PyInt 1)) (pure_fn (\<lambda>a. PyNone)))
     (\<lambda>y. Maybe_map y (pure_fn (\<lambda>a. PyInt 0))) = py_return Nothing_cls
   \<and> Maybe_map (Some_cls (PyInt 1)) (pure_fn (\<lambda>a. (\<lambda>a. PyInt 0) ((\<lambda>a. PyNone) a)))
      = py_return (Some_cls (PyInt 0))"
  by (simp add: pure_fn_def)

section \<open>The laws of \<^verbatim>\<open>bind\<close>\<close>

text \<open>
  C7. For every value \<open>v\<close> and every function \<open>f\<close> returning a container,
  \<^verbatim>\<open>bind\<close> on the \<^verbatim>\<open>_Some\<close> holding \<open>v\<close> is \<open>f(v)\<close> itself: one call of \<open>f\<close>, its result
  returned as it is. For every container \<open>x\<close>, binding the constructor of the present
  variant gives \<open>x\<close> back; with the public \<^verbatim>\<open>Some\<close> in its place the same holds of every
  container that does not wrap \<^verbatim>\<open>None\<close>. \<^verbatim>\<open>Nothing.bind(f)\<close> is \<^verbatim>\<open>Nothing\<close> and \<open>f\<close> is
  not called.
\<close>

theorem bind_identity_laws:
  "Maybe_bind (Some_cls v) f = f v
   \<and> (v \<noteq> PyNone \<longrightarrow> Maybe_bind (Some_fn v) f = f v)
   \<and> Maybe_bind x (\<lambda>a. py_return (Some_cls a)) = py_return x
   \<and> (x \<noteq> Some_cls PyNone \<longrightarrow> Maybe_bind x (pure_fn Some_fn) = py_return x)
   \<and> Maybe_bind Nothing f w = (Inr Nothing, w)"
proof -
  have right: "Maybe_bind x (\<lambda>a. py_return (Some_cls a)) = py_return x"
    by (cases x) simp_all
  have right_public: "x \<noteq> Some_cls PyNone \<longrightarrow> Maybe_bind x (pure_fn Some_fn) = py_return x"
    by (cases x) (simp_all add: pure_fn_def Some_fn_def)
  have empty: "Maybe_bind Nothing f w = (Inr Nothing, w)"
    by (simp add: py_return_def)
  from right right_public empty show ?thesis
    by (simp add: Some_fn_def)
qed

theorem bind_identity_laws_witness:
  "PyInt 2 \<noteq> PyNone
   \<and> Maybe_bind (Some_fn (PyInt 2)) (\<lambda>a n. (Inr (Some_cls (PyTuple [a])), Suc n)) (0::nat)
       = (Inr (Some_cls (PyTuple [PyInt 2])), Suc 0)
   \<and> Some_cls (PyInt 2) \<noteq> Some_cls PyNone
   \<and> Maybe_bind (Some_cls (PyInt 2)) (pure_fn Some_fn) (0::nat) = (Inr (Some_cls (PyInt 2)), 0)"
  using bind_identity_laws [of "PyInt 2" "\<lambda>a n. (Inr (Some_cls (PyTuple [a])), Suc n)"
      "Some_cls (PyInt 2)"]
  by (simp add: py_return_def pure_fn_def Some_fn_def)

section \<open>Fallbacks\<close>

text \<open>
  C8. On a \<^verbatim>\<open>_Some\<close> holding \<open>v\<close>, \<^verbatim>\<open>or_else_call(thunk)\<close> returns \<open>v\<close> and the thunk is
  not called: whatever the thunk would do or raise, nothing is raised and the world stays
  as it was. On \<^verbatim>\<open>Nothing\<close> it is one call of the thunk: its result, its exception and its
  effect are those of the thunk. With a thunk that counts its calls in the world, the count
  stays the same in the first case and grows by one in the second.
\<close>

theorem or_else_call_lazy:
  "Maybe_or_else_call (Some_cls v) thunk w = (Inr v, w)
   \<and> (v \<noteq> PyNone \<longrightarrow> Maybe_or_else_call (Some_fn v) thunk w = (Inr v, w))
   \<and> Maybe_or_else_call Nothing thunk w = thunk w
   \<and> Maybe_or_else_call (Some_cls v) (\<lambda>n. (r, Suc n)) n = (Inr v, n)
   \<and> Maybe_or_else_call Nothing (\<lambda>n. (r, Suc n)) n = (r, Suc n)"
  by (simp add: py_return_def Some_fn_def)

theorem or_else_call_lazy_witness:
  "PyInt 10 \<noteq> PyNone
   \<and> Maybe_or_else_call (Some_fn (PyInt 10)) (py_raise (OtherError ''ZeroDivisionError'')) (0::nat)
       = (Inr (PyInt 10), 0)
   \<and> Maybe_or_else_call Nothing (py_raise (OtherError ''ZeroDivisionError'')) (0::nat)
       = (Inl (OtherError ''ZeroDivisionError''), 0)
   \<and> Maybe_or_else_call Nothing (\<lambda>n. (Inr (PyInt 99), Suc n)) (0::nat) = (Inr (PyInt 99), Suc 0)"
  using or_else_call_lazy [of "PyInt 10" "py_raise (OtherError ''ZeroDivisionError'')" "0::nat"
      "Inr (PyInt 99)" "0::nat"]
  by (simp add: py_raise_def)

section \<open>The decorator\<close>

text \<open>
  C9. For every function and all arguments, the decorated function called with these
  arguments is \<^verbatim>\<open>Maybe.from_value\<close> of the result of the function called with them:
  \<^verbatim>\<open>Nothing\<close> when the function returns \<^verbatim>\<open>None\<close>, the \<^verbatim>\<open>_Some\<close> of the result otherwise; an
  exception of the function leaves the decorated call as it is, with the effects the
  function had.
\<close>

theorem maybe_decorator:
  "maybe function args kwargs =
     py_bind (function args kwargs) (\<lambda>r. py_return (from_value r))
   \<and> (function args kwargs w = (Inr r, w') \<longrightarrow>
        maybe function args kwargs w = (Inr (from_value r), w'))
   \<and> (function args kwargs w = (Inr PyNone, w') \<longrightarrow>
        maybe function args kwargs w = (Inr Nothing, w'))
   \<and> (function args kwargs w = (Inr r, w') \<and> r \<noteq> PyNone \<longrightarrow>
        maybe function args kwargs w = (Inr (Some_cls r), w'))
   \<and> (function args kwargs w = (Inl e, w') \<longrightarrow>
        maybe function args kwargs w = (Inl e, w'))"
  by (auto simp: maybe_def py_bind_run_Inr py_bind_run_Inl py_return_def)

theorem maybe_decorator_witness:
  "(\<lambda>args kwargs n.
       (if args = [] then Inl (OtherError ''TypeError'')
        else if args = [PyInt 0] then Inr PyNone else Inr (hd args), Suc n)) [PyInt 0] [] (0::nat) = (Inr PyNone, Suc 0)
   \<and> maybe (\<lambda>args kwargs n.
       (if args = [] then Inl (OtherError ''TypeError'')
        else if args = [PyInt 0] then Inr PyNone else Inr (hd args), Suc n)) [PyInt 0] [] (0::nat) = (Inr Nothing_cls, Suc 0)
   \<and> (\<lambda>args kwargs n.
       (if args = [] then Inl (OtherError ''TypeError'')
        else if args = [PyInt 0] then Inr PyNone else Inr (hd args), Suc n)) [PyInt 1] [] (0::nat) = (Inr (PyInt 1), Suc 0)
   \<and> PyInt 1 \<noteq> PyNone
   \<and> maybe (\<lambda>args kwargs n.
       (if args = [] then Inl (OtherError ''TypeError'')
        else if args = [PyInt 0] then Inr PyNone else Inr (hd args), Suc n)) [PyInt 1] [] (0::nat) = (Inr (Some_cls (PyInt 1)), Suc 0)
   \<and> (\<lambda>args kwargs n.
       (if args = [] then Inl (OtherError ''TypeError'')
        else if args = [PyInt 0] then Inr PyNone else Inr (hd args), Suc n)) [] [] (0::nat) = (Inl (OtherError ''TypeError''), Suc 0)
   \<and> maybe (\<lambda>args kwargs n.
       (if args = [] then Inl (OtherError ''TypeError'')
        else if args = [PyInt 0] then Inr PyNone else Inr (hd args), Suc n)) [] [] (0::nat) = (Inl (OtherError ''TypeError''), Suc 0)"
  using
    maybe_decorator [of "\<lambda>args kwargs n.
       (if args = [] then Inl (OtherError ''TypeError'')
        else if args = [PyInt 0] then Inr PyNone else Inr (hd args), Suc n)" "[PyInt 0]" "[]" "0::nat" PyNone "Suc 0"]
    maybe_decorator [of "\<lambda>args kwargs n.
       (if args = [] then Inl (OtherError ''TypeError'')
        else if args = [PyInt 0] then Inr PyNone else Inr (hd args), Suc n)" "[PyInt 1]" "[]" "0::nat" "PyInt 1" "Suc 0"]
    maybe_decorator [of "\<lambda>args kwargs n.
       (if args = [] then Inl (OtherError ''TypeError'')
        else if args = [PyInt 0] then Inr PyNone else Inr (hd args), Suc n)" "[]" "[]" "0::nat" _ "Suc 0" "OtherError ''TypeError''"]
  by (simp add: py_bind_def py_return_def)

section \<open>Applying a wrapped function\<close>

text \<open>
  C10. On a \<^verbatim>\<open>_Some\<close>, \<^verbatim>\<open>apply(c)\<close> returns \<open>c\<close> itself for every argument \<open>c\<close> that is
  not a \<^verbatim>\<open>_Some\<close>, \<^verbatim>\<open>Nothing\<close> and objects that are no containers included: nothing is
  checked, called or raised. Only for a \<^verbatim>\<open>_Some\<close> does it take the payload \<open>g\<close> of the
  argument and return the result of \<^verbatim>\<open>map(g)\<close> on itself.
\<close>

theorem apply_passes_through:
  "((\<forall>g. c \<noteq> PyMaybe (Some_cls g)) \<longrightarrow> Maybe_apply call (Some_cls v) c w = (Inr c, w))
   \<and> (\<not> isinstance c success_type \<longrightarrow> Maybe_apply call (Some_cls v) c w = (Inr c, w))
   \<and> Maybe_apply call (Some_cls v) (PyMaybe Nothing) w = (Inr (PyMaybe Nothing), w)
   \<and> Maybe_apply call (Some_cls v) (PyMaybe (Some_cls g)) =
       py_bind (Maybe_map (Some_cls v) (call g)) (\<lambda>r. py_return (PyMaybe r))"
proof -
  have other: "Maybe_apply call (Some_cls v) c w = (Inr c, w)"
    if "\<forall>g. c \<noteq> PyMaybe (Some_cls g)"
    using that by (simp add: py_return_def)
  have no_instance: "Maybe_apply call (Some_cls v) c w = (Inr c, w)"
    if "\<not> isinstance c success_type"
    using that by (simp add: Maybe_apply_def Some_apply_def py_return_def)
  have empty: "Maybe_apply call (Some_cls v) (PyMaybe Nothing) w = (Inr (PyMaybe Nothing), w)"
    by (simp add: py_return_def)
  have present: "Maybe_apply call (Some_cls v) (PyMaybe (Some_cls g)) =
       py_bind (Maybe_map (Some_cls v) (call g)) (\<lambda>r. py_return (PyMaybe r))"
    by simp
  from other no_instance empty present show ?thesis
    by blast
qed

theorem apply_passes_through_witness:
  "(\<forall>g. PyInt 5 \<noteq> PyMaybe (Some_cls g)) \<and> \<not> isinstance (PyInt 5) success_type
   \<and> Maybe_apply (\<lambda>h a. py_raise (OtherError ''TypeError'')) (Some_cls (PyInt 1)) (PyInt 5) (0::nat)
       = (Inr (PyInt 5), 0)
   \<and> Maybe_apply (\<lambda>h a. py_raise (OtherError ''TypeError'')) (Some_cls (PyInt 1)) PyNone (0::nat)
       = (Inr PyNone, 0)"
  using
    apply_passes_through [of "PyInt 5" "\<lambda>h a. py_raise (OtherError ''TypeError'')" "PyInt 1" "0::nat"]
    apply_passes_through [of PyNone "\<lambda>h a. py_raise (OtherError ''TypeError'')" "PyInt 1" "0::nat"]
  by simp

end
